theory Spec2Isabelle
  imports Complex_Main "HOL-Library.Word"
begin

unbundle bit_operations_syntax

section \<open>The 4D geometry kernel\<close>

text \<open>
  The development covers the two Python modules of the repository:
  \<^verbatim>\<open>backend/main.py\<close> (the pydantic models \<^verbatim>\<open>Vector4D\<close>, \<^verbatim>\<open>Shape4D\<close>, \<^verbatim>\<open>Transform4D\<close>
  and the functions \<^verbatim>\<open>create_4d_cube\<close>, \<^verbatim>\<open>apply_transform\<close>) and
  \<^verbatim>\<open>shared/math4d.py\<close> (the tuple based functions).

  Conventions of the embedding:
  \<^item> a Python \<^verbatim>\<open>float\<close> is a \<^typ>\<open>real\<close>: the arithmetic is exact, and the values
    \<^verbatim>\<open>inf\<close> and \<^verbatim>\<open>nan\<close> are outside the model;
  \<^item> a Python \<^verbatim>\<open>int\<close> is an \<^typ>\<open>int\<close>;
  \<^item> a raised exception is the left summand of the result;
  \<^item> a \<^verbatim>\<open>for\<close> loop over a range that appends to a list is a \<^const>\<open>fold\<close> over that
    range whose state is the list built so far.
  The record fields of \<^verbatim>\<open>Vector4D\<close> keep their names \<open>x\<close>, \<open>y\<close>, \<open>z\<close>, \<open>w\<close>; the
  parameter \<^verbatim>\<open>size\<close> is written \<open>sz\<close> and the local lists \<^verbatim>\<open>vertices\<close> and
  \<^verbatim>\<open>edges\<close> are written \<open>vs\<close> and \<open>es\<close>, since the source's names are constants here.
\<close>

subsection \<open>Python built-ins used by the source\<close>

datatype py_error = ZeroDivisionError | IndexError

text \<open>\<^verbatim>\<open>range(a, b)\<close>: the integers from \<open>a\<close> up to \<open>b - 1\<close>.\<close>

definition range_py :: "int \<Rightarrow> int \<Rightarrow> int list" where
  "range_py a b = [a..b - 1]"

text \<open>
  \<^verbatim>\<open>bin(n)\<close>: the string \<^verbatim>\<open>0b\<close> followed by the binary digits of \<open>n\<close>, most significant
  first, with a leading minus sign for a negative \<open>n\<close>.
\<close>

fun bin_digits :: "nat \<Rightarrow> string" where
  "bin_digits n =
     (if n < 2 then [if n = 0 then CHR ''0'' else CHR ''1'']
      else bin_digits (n div 2) @ [if n mod 2 = 0 then CHR ''0'' else CHR ''1''])"

declare bin_digits.simps [simp del]

definition bin :: "int \<Rightarrow> string" where
  "bin n = (if n < 0 then ''-0b'' @ bin_digits (nat (- n)) else ''0b'' @ bin_digits (nat n))"

text \<open>
  \<^verbatim>\<open>seq[i]\<close> on a list or tuple: a negative index counts from the end, an index out of
  range raises \<^verbatim>\<open>IndexError\<close>.
\<close>

definition getitem :: "'a list \<Rightarrow> int \<Rightarrow> py_error + 'a" where
  "getitem xs i =
     (let n = int (length xs); k = (if i < 0 then n + i else i)
      in if 0 \<le> k \<and> k < n then Inr (xs ! nat k) else Inl IndexError)"

subsection \<open>The data model of \<^verbatim>\<open>backend/main.py\<close>\<close>

record Vector4D =
  x :: real
  y :: real
  z :: real
  w :: real

record Shape4D =
  vertices :: "Vector4D list"
  edges :: "int list list"
  position :: Vector4D

record Transform4D =
  rotation_xy :: real
  rotation_xz :: real
  rotation_xw :: real
  rotation_yz :: real
  rotation_yw :: real
  rotation_zw :: real
  translation :: Vector4D

subsection \<open>\<^verbatim>\<open>backend/main.py\<close>\<close>

text \<open>
  \<^verbatim>\<open>create_4d_cube\<close>: the first loop appends one \<^verbatim>\<open>Vector4D\<close> per \<open>i\<close> in \<^verbatim>\<open>range(16)\<close>;
  the nested loops append \<^verbatim>\<open>[i, j]\<close> when \<^verbatim>\<open>bin(i ^ j).count('1') == 1\<close>. The shape
  is built without a position, so the field takes its default, the zero vector.
\<close>

definition create_4d_cube :: "real \<Rightarrow> Shape4D" where
  "create_4d_cube sz =
     (let vs = fold (\<lambda>i vs.
                  let x = (if i AND 1 \<noteq> 0 then sz else - sz);
                      y = (if i AND 2 \<noteq> 0 then sz else - sz);
                      z = (if i AND 4 \<noteq> 0 then sz else - sz);
                      w = (if i AND 8 \<noteq> 0 then sz else - sz)
                  in vs @ [\<lparr>x = x, y = y, z = z, w = w\<rparr>]) (range_py 0 16) [];
          es = fold (\<lambda>i es.
                  fold (\<lambda>j es.
                     let diff = i XOR j
                     in if count_list (bin diff) CHR ''1'' = 1 then es @ [[i, j]] else es)
                    (range_py (i + 1) 16) es) (range_py 0 16) []
      in \<lparr>vertices = vs, edges = es, position = \<lparr>x = 0, y = 0, z = 0, w = 0\<rparr>\<rparr>)"

text \<open>
  \<^verbatim>\<open>apply_transform\<close> builds a new shape from the fields of its arguments and assigns
  to neither of them; the six rotation fields of the transform are never read.
\<close>

definition apply_transform :: "Shape4D \<Rightarrow> Transform4D \<Rightarrow> Shape4D" where
  "apply_transform shape transform =
     \<lparr>vertices = vertices shape,
      edges = edges shape,
      position =
        \<lparr>x = x (position shape) + x (translation transform),
         y = y (position shape) + y (translation transform),
         z = z (position shape) + z (translation transform),
         w = w (position shape) + w (translation transform)\<rparr>\<rparr>"

subsection \<open>\<^verbatim>\<open>shared/math4d.py\<close>\<close>

definition create_4d_cube_vertices :: "real \<Rightarrow> (real \<times> real \<times> real \<times> real) list" where
  "create_4d_cube_vertices sz =
     fold (\<lambda>i vs.
        let x = (if i AND 1 \<noteq> 0 then sz else - sz);
            y = (if i AND 2 \<noteq> 0 then sz else - sz);
            z = (if i AND 4 \<noteq> 0 then sz else - sz);
            w = (if i AND 8 \<noteq> 0 then sz else - sz)
        in vs @ [(x, y, z, w)]) (range_py 0 16) []"

definition create_4d_cube_edges :: "(int \<times> int) list" where
  "create_4d_cube_edges =
     fold (\<lambda>i es.
        fold (\<lambda>j es.
           let diff = i XOR j
           in if count_list (bin diff) CHR ''1'' = 1 then es @ [(i, j)] else es)
          (range_py (i + 1) 16) es) (range_py 0 16) []"

text \<open>
  \<^verbatim>\<open>project_4d_to_3d\<close>: Python's float division raises \<^verbatim>\<open>ZeroDivisionError\<close> when the
  divisor \<^verbatim>\<open>distance - w\<close> is zero.
\<close>

definition project_4d_to_3d ::
    "real \<times> real \<times> real \<times> real \<Rightarrow> real \<Rightarrow> py_error + (real \<times> real \<times> real)" where
  "project_4d_to_3d point distance =
     (case point of (px, py, pz, pw) \<Rightarrow>
        if distance - pw = 0 then Inl ZeroDivisionError
        else let factor = distance / (distance - pw)
             in Inr (px * factor, py * factor, pz * factor))"

definition rotation_matrix_4d_xy :: "real \<Rightarrow> real list list" where
  "rotation_matrix_4d_xy angle =
     (let c = cos angle; s = sin angle
      in [[c, - s, 0, 0],
          [s, c, 0, 0],
          [0, 0, 1, 0],
          [0, 0, 0, 1]])"

definition rotation_matrix_4d_xz :: "real \<Rightarrow> real list list" where
  "rotation_matrix_4d_xz angle =
     (let c = cos angle; s = sin angle
      in [[c, 0, - s, 0],
          [0, 1, 0, 0],
          [s, 0, c, 0],
          [0, 0, 0, 1]])"

definition rotation_matrix_4d_xw :: "real \<Rightarrow> real list list" where
  "rotation_matrix_4d_xw angle =
     (let c = cos angle; s = sin angle
      in [[c, 0, 0, - s],
          [0, 1, 0, 0],
          [0, 0, 1, 0],
          [s, 0, 0, c]])"

text \<open>
  \<^verbatim>\<open>matrix_multiply_4d\<close>: the state of the two loops is the list \<^verbatim>\<open>result\<close>, or the
  exception raised by one of the subscripts \<^verbatim>\<open>matrix[i]\<close>, \<^verbatim>\<open>matrix[i][j]\<close>,
  \<^verbatim>\<open>vector[j]\<close>, after which nothing more is executed. The matrix is a list of rows and
  the vector a tuple, both of any length.
\<close>

definition matrix_multiply_4d :: "real list list \<Rightarrow> real list \<Rightarrow> py_error + real list" where
  "matrix_multiply_4d matrix vector =
     fold (\<lambda>i st.
        fold (\<lambda>j st.
           case st of
             Inl e \<Rightarrow> Inl e
           | Inr result \<Rightarrow>
               (case getitem matrix i of
                  Inl e \<Rightarrow> Inl e
                | Inr row \<Rightarrow>
                    (case getitem row j of
                       Inl e \<Rightarrow> Inl e
                     | Inr a \<Rightarrow>
                         (case getitem vector j of
                            Inl e \<Rightarrow> Inl e
                          | Inr b \<Rightarrow> Inr (result[nat i := result ! nat i + a * b])))))
          (range_py 0 4) st) (range_py 0 4) (Inr [0, 0, 0, 0])"

subsection \<open>Notions of the specification\<close>

text \<open>
  The Hamming weight of an integer is the number of its set bits. The source never
  computes it under this name: it counts the characters \<^verbatim>\<open>1\<close> of \<^verbatim>\<open>bin(diff)\<close>.
\<close>

definition hamming_weight :: "int \<Rightarrow> nat" where
  "hamming_weight n = card {k. bit n k}"

text \<open>
  The rotation matrix of the specification for the plane of the axes \<open>a\<close> and \<open>b\<close>: the
  4 by 4 identity matrix whose entries at the rows and columns \<open>a\<close> and \<open>b\<close> are replaced
  by the block \<open>[[cos \<theta>, - sin \<theta>], [sin \<theta>, cos \<theta>]]\<close>.
\<close>

definition plane_rotation :: "nat \<Rightarrow> nat \<Rightarrow> real \<Rightarrow> real list list" where
  "plane_rotation a b \<theta> =
     map (\<lambda>i. map (\<lambda>j.
        if i = a \<and> j = a then cos \<theta>
        else if i = a \<and> j = b then - sin \<theta>
        else if i = b \<and> j = a then sin \<theta>
        else if i = b \<and> j = b then cos \<theta>
        else if i = j then 1 else 0) [0..<4]) [0..<4]"

definition identity_matrix_4 :: "real list list" where
  "identity_matrix_4 = map (\<lambda>i. map (\<lambda>j. if i = j then 1 else 0) [0..<4]) [0..<4]"

text \<open>
  The validity invariant of the edges of a shape: every edge is a pair \<open>[i, j]\<close> with
  \<open>0 \<le> i < j < \<close> the number of vertices, no edge occurs twice, and no edge occurs
  reversed. \<open>valid_edge_pairs\<close> is the same invariant for the tuples of the shared
  module, for a given number of vertices.
\<close>

definition valid_edges :: "Shape4D \<Rightarrow> bool" where
  "valid_edges shape =
     (list_all (\<lambda>e. case e of
                       [i, j] \<Rightarrow> 0 \<le> i \<and> i < j \<and> j < int (length (vertices shape))
                     | _ \<Rightarrow> False) (edges shape) \<and>
      distinct (edges shape) \<and>
      list_all (\<lambda>e. rev e \<notin> set (edges shape)) (edges shape))"

definition valid_edge_pairs :: "nat \<Rightarrow> (int \<times> int) list \<Rightarrow> bool" where
  "valid_edge_pairs n es =
     (list_all (\<lambda>(i, j). 0 \<le> i \<and> i < j \<and> j < int n) es \<and>
      distinct es \<and>
      list_all (\<lambda>(i, j). (j, i) \<notin> set es) es)"

section \<open>Auxiliary facts\<close>

subsection \<open>Loops that append\<close>

lemma fold_append_map: "fold (\<lambda>i vs. vs @ [f i]) xs acc = acc @ map f xs"
  by (induction xs arbitrary: acc) simp_all

lemma fold_append_filter:
  "fold (\<lambda>j es. if P j then es @ [f j] else es) js acc = acc @ map f (filter P js)"
  by (induction js arbitrary: acc) simp_all

lemma fold_fold_append:
  "fold (\<lambda>i es. fold (\<lambda>j es. if P i j then es @ [f i j] else es) (g i) es) xs acc =
     acc @ concat (map (\<lambda>i. map (f i) (filter (P i) (g i))) xs)"
  by (induction xs arbitrary: acc) (simp_all add: fold_append_filter)

lemma range_py_0_4: "range_py 0 4 = [0, 1, 2, 3]"
  by code_simp

lemma length_range_py: "a \<le> b \<Longrightarrow> length (range_py a b) = nat (b - a)"
  by (simp add: range_py_def)

lemma nth_range_py: "a + int k < b \<Longrightarrow> range_py a b ! k = a + int k"
  by (simp add: range_py_def)

lemma upt_0_4: "[0..<4] = [0, 1, 2, 3]"
  by code_simp

lemma length_4_list: "length xs = 4 \<Longrightarrow> \<exists>a b c d. xs = [a, b, c, d]"
  by (auto simp: numeral_eq_Suc length_Suc_conv)

subsection \<open>Counting the ones of \<^verbatim>\<open>bin\<close> is the Hamming weight\<close>

lemma bit_nat_bound: "bit (m::nat) k \<Longrightarrow> k < m"
proof -
  assume b: "bit m k"
  have "2 ^ k \<le> m"
  proof (rule ccontr)
    assume "\<not> 2 ^ k \<le> m"
    then have "m div 2 ^ k = 0" by simp
    with b show False by (simp add: bit_iff_odd)
  qed
  moreover have "k < 2 ^ k" by (rule less_exp)
  ultimately show ?thesis by linarith
qed

lemma finite_bits_nat: "finite {k. bit (m::nat) k}"
proof (rule finite_subset)
  show "{k. bit m k} \<subseteq> {..<m}" by (auto dest: bit_nat_bound)
qed simp

lemma bits_nat_rec:
  "{k. bit (m::nat) k} = (if odd m then {0} else {}) \<union> Suc ` {k. bit (m div 2) k}"
proof (rule set_eqI)
  fix k
  show "k \<in> {k. bit m k} \<longleftrightarrow> k \<in> (if odd m then {0} else {}) \<union> Suc ` {k. bit (m div 2) k}"
    by (cases k) (auto simp: bit_0 bit_Suc)
qed

lemma card_bits_nat_rec:
  "card {k. bit (m::nat) k} = (if odd m then 1 else 0) + card {k. bit (m div 2) k}"
proof -
  have fin: "finite (Suc ` {k. bit (m div 2) k})"
    by (simp add: finite_bits_nat)
  have "card {k. bit m k} = card ((if odd m then {0} else {}) \<union> Suc ` {k. bit (m div 2) k})"
    by (subst bits_nat_rec) simp
  also have "\<dots> = (if odd m then 1 else 0) + card (Suc ` {k. bit (m div 2) k})"
    using fin by (auto simp: card_insert_if)
  also have "card (Suc ` {k. bit (m div 2) k}) = card {k. bit (m div 2) k}"
    by (rule card_image) simp
  finally show ?thesis .
qed

lemma count_bin_digits: "count_list (bin_digits m) CHR ''1'' = card {k. bit m k}"
proof (induction m rule: bin_digits.induct)
  case (1 n)
  show ?case
  proof (cases "n < 2")
    case True
    then have "n = 0 \<or> n = 1" by auto
    then show ?thesis
      by (subst bin_digits.simps, subst card_bits_nat_rec) (auto simp: bot_fun_def)
  next
    case False
    with 1 have IH: "count_list (bin_digits (n div 2)) CHR ''1'' = card {k. bit (n div 2) k}"
      by simp
    from False show ?thesis
      by (subst bin_digits.simps, subst card_bits_nat_rec) (simp add: IH odd_iff_mod_2_eq_one)
  qed
qed

lemma count_bin: "0 \<le> n \<Longrightarrow> count_list (bin n) CHR ''1'' = hamming_weight n"
proof -
  assume "0 \<le> n"
  then obtain m where n: "n = int m" using nonneg_int_cases by blast
  show ?thesis
    by (simp add: n bin_def hamming_weight_def count_bin_digits bit_of_nat_iff_bit)
qed

subsection \<open>The vertices\<close>

lemma vertices_map:
  "vertices (create_4d_cube sz) =
     map (\<lambda>i. \<lparr>x = (if i AND 1 \<noteq> 0 then sz else - sz),
               y = (if i AND 2 \<noteq> 0 then sz else - sz),
               z = (if i AND 4 \<noteq> 0 then sz else - sz),
               w = (if i AND 8 \<noteq> 0 then sz else - sz)\<rparr>) (range_py 0 16)"
  by (simp add: create_4d_cube_def Let_def fold_append_map)

lemma cube_vertices_map:
  "create_4d_cube_vertices sz =
     map (\<lambda>i. ((if i AND 1 \<noteq> 0 then sz else - sz),
               (if i AND 2 \<noteq> 0 then sz else - sz),
               (if i AND 4 \<noteq> 0 then sz else - sz),
               (if i AND 8 \<noteq> 0 then sz else - sz))) (range_py 0 16)"
  by (simp add: create_4d_cube_vertices_def Let_def fold_append_map)

lemma and_mask_bit:
  "int i AND 1 \<noteq> 0 \<longleftrightarrow> bit i 0"
  "int i AND 2 \<noteq> 0 \<longleftrightarrow> bit i 1"
  "int i AND 4 \<noteq> 0 \<longleftrightarrow> bit i 2"
  "int i AND 8 \<noteq> 0 \<longleftrightarrow> bit i 3"
  using and_exp_eq_0_iff_not_bit [of "int i" 0] and_exp_eq_0_iff_not_bit [of "int i" 1]
    and_exp_eq_0_iff_not_bit [of "int i" 2] and_exp_eq_0_iff_not_bit [of "int i" 3]
  by (simp_all add: bit_of_nat_iff_bit)

subsection \<open>The edges\<close>

lemma cube_edges_concat:
  "create_4d_cube_edges =
     concat (map (\<lambda>i. map (\<lambda>j. (i, j))
        (filter (\<lambda>j. count_list (bin (i XOR j)) CHR ''1'' = 1) (range_py (i + 1) 16)))
        (range_py 0 16))"
  by (simp add: create_4d_cube_edges_def Let_def fold_fold_append)

lemma cube_edges_list:
  "create_4d_cube_edges =
    [(0, 1), (0, 2), (0, 4), (0, 8), (1, 3), (1, 5), (1, 9), (2, 3), (2, 6),
     (2, 10), (3, 7), (3, 11), (4, 5), (4, 6), (4, 12), (5, 7), (5, 13),
     (6, 7), (6, 14), (7, 15), (8, 9), (8, 10), (8, 12), (9, 11), (9, 13),
     (10, 11), (10, 14), (11, 15), (12, 13), (12, 14), (13, 15), (14, 15)]"
  by code_simp

lemma edges_concat:
  "edges (create_4d_cube sz) =
     concat (map (\<lambda>i. map (\<lambda>j. [i, j])
        (filter (\<lambda>j. count_list (bin (i XOR j)) CHR ''1'' = 1) (range_py (i + 1) 16)))
        (range_py 0 16))"
  by (simp add: create_4d_cube_def Let_def fold_fold_append)

lemma edges_eq_cube_edges:
  "edges (create_4d_cube sz) = map (\<lambda>(i, j). [i, j]) create_4d_cube_edges"
  by (simp add: edges_concat cube_edges_concat map_concat comp_def)

lemma mem_concat_pairs:
  "(i, j) \<in> set (concat (map (\<lambda>i. map (\<lambda>j. (i, j)) (filter (P i) (g i))) xs)) \<longleftrightarrow>
     i \<in> set xs \<and> j \<in> set (g i) \<and> P i j"
  by (induction xs) auto

lemma cube_edges_mem:
  "(i, j) \<in> set create_4d_cube_edges \<longleftrightarrow>
     0 \<le> i \<and> i < j \<and> j < 16 \<and> hamming_weight (i XOR j) = 1"
proof -
  have "(i, j) \<in> set create_4d_cube_edges \<longleftrightarrow>
      0 \<le> i \<and> i < j \<and> j < 16 \<and> count_list (bin (i XOR j)) CHR ''1'' = 1"
    unfolding cube_edges_concat mem_concat_pairs range_py_def by auto
  moreover have "count_list (bin (i XOR j)) CHR ''1'' = hamming_weight (i XOR j)"
    if "0 \<le> i" "i < j"
    using that by (intro count_bin) simp
  ultimately show ?thesis by auto
qed

lemma edges_set:
  "set (edges (create_4d_cube sz)) =
     {[i, j] | i j. 0 \<le> i \<and> i < j \<and> j < 16 \<and> hamming_weight (i XOR j) = 1}"
proof -
  have "set (edges (create_4d_cube sz)) = (\<lambda>(i, j). [i, j]) ` set create_4d_cube_edges"
    by (simp add: edges_eq_cube_edges)
  also have "\<dots> = {[i, j] | i j. (i, j) \<in> set create_4d_cube_edges}"
    by force
  finally show ?thesis by (simp add: cube_edges_mem)
qed

lemma cube_edges_length: "length create_4d_cube_edges = 32"
  by (simp add: cube_edges_list)

lemma cube_edges_distinct: "distinct create_4d_cube_edges"
  by (simp add: cube_edges_list)

lemma cube_edges_degree_all:
  "list_all (\<lambda>v. length (filter (\<lambda>(a, b). v = a \<or> v = b) create_4d_cube_edges) = 4) [0..15]"
  by code_simp

lemma cube_edges_degree:
  "0 \<le> v \<Longrightarrow> v < 16 \<Longrightarrow> length (filter (\<lambda>(a, b). v = a \<or> v = b) create_4d_cube_edges) = 4"
  using cube_edges_degree_all unfolding list_all_iff by simp

lemma edges_degree_all:
  "list_all (\<lambda>v. length (filter (\<lambda>e. v \<in> set e) (edges (create_4d_cube sz))) = 4) [0..15]"
  unfolding edges_eq_cube_edges by code_simp

lemma edges_degree:
  "0 \<le> v \<Longrightarrow> v < 16 \<Longrightarrow> length (filter (\<lambda>e. v \<in> set e) (edges (create_4d_cube sz))) = 4"
  using edges_degree_all [of sz] unfolding list_all_iff by simp

lemma cube_valid_pairs: "valid_edge_pairs 16 create_4d_cube_edges"
  unfolding valid_edge_pairs_def by code_simp

lemma cube_valid: "valid_edges (create_4d_cube sz)"
proof -
  have len: "length (vertices (create_4d_cube sz)) = 16"
    by (simp add: vertices_map length_range_py)
  show ?thesis
    unfolding valid_edges_def edges_eq_cube_edges len by code_simp
qed

lemma apply_transform_valid:
  "valid_edges shape \<Longrightarrow> valid_edges (apply_transform shape transform)"
proof -
  have "vertices (apply_transform shape transform) = vertices shape"
    and "edges (apply_transform shape transform) = edges shape"
    by (simp_all add: apply_transform_def)
  then show "valid_edges shape \<Longrightarrow> valid_edges (apply_transform shape transform)"
    unfolding valid_edges_def by (simp only:)
qed

subsection \<open>The matrix product on explicit rows\<close>

lemma matrix_multiply_4d_explicit:
  "matrix_multiply_4d
     [[a0, a1, a2, a3], [b0, b1, b2, b3], [c0, c1, c2, c3], [d0, d1, d2, d3]] [v0, v1, v2, v3] =
   Inr [a0 * v0 + a1 * v1 + a2 * v2 + a3 * v3,
        b0 * v0 + b1 * v1 + b2 * v2 + b3 * v3,
        c0 * v0 + c1 * v1 + c2 * v2 + c3 * v3,
        d0 * v0 + d1 * v1 + d2 * v2 + d3 * v3]"
  by (simp add: matrix_multiply_4d_def range_py_0_4 getitem_def)

section \<open>The claims\<close>

text \<open>
  Claim C1. For every size, hypercube generation yields exactly 16 vertices, and for
  every \<open>i\<close> below 16 the vertex at index \<open>i\<close> has the coordinate \<open>+size\<close> on the axis
  \<open>x\<close> when bit 0 of \<open>i\<close> is set and \<open>-size\<close> otherwise, and likewise bit 1 for \<open>y\<close>,
  bit 2 for \<open>z\<close> and bit 3 for \<open>w\<close>. This holds for \<^verbatim>\<open>create_4d_cube\<close> of the backend
  and for \<^verbatim>\<open>create_4d_cube_vertices\<close> of the shared module.
\<close>

theorem create_4d_cube_vertices_by_bits:
  "length (vertices (create_4d_cube sz)) = 16 \<and>
   (\<forall>i<16. vertices (create_4d_cube sz) ! i =
      \<lparr>x = (if bit i 0 then sz else - sz),
       y = (if bit i 1 then sz else - sz),
       z = (if bit i 2 then sz else - sz),
       w = (if bit i 3 then sz else - sz)\<rparr>) \<and>
   length (create_4d_cube_vertices sz) = 16 \<and>
   (\<forall>i<16. create_4d_cube_vertices sz ! i =
      ((if bit i 0 then sz else - sz),
       (if bit i 1 then sz else - sz),
       (if bit i 2 then sz else - sz),
       (if bit i 3 then sz else - sz)))"
  by (simp add: vertices_map cube_vertices_map length_range_py nth_range_py and_mask_bit)

theorem create_4d_cube_vertices_by_bits_witness:
  "vertices (create_4d_cube 2) ! 5 = \<lparr>x = 2, y = - 2, z = 2, w = - 2\<rparr> \<and>
   create_4d_cube_vertices 2 ! 10 = (- 2, 2, - 2, 2)"
proof -
  have a: "\<forall>i<16. vertices (create_4d_cube 2) ! i =
      \<lparr>x = (if bit i 0 then 2 else - 2), y = (if bit i 1 then 2 else - 2),
       z = (if bit i 2 then 2 else - 2), w = (if bit i 3 then 2 else - 2)\<rparr>"
    and b: "\<forall>i<16. create_4d_cube_vertices 2 ! i =
      ((if bit i 0 then 2 else - 2), (if bit i 1 then 2 else - 2),
       (if bit i 2 then 2 else - 2), (if bit i 3 then 2 else - 2))"
    using create_4d_cube_vertices_by_bits [of 2] by blast+
  from a [rule_format, of 5] b [rule_format, of 10] show ?thesis
    by (simp add: bit_iff_odd)
qed

text \<open>
  Claim C2. For every size (so for every positive one), the edges of the hypercube are
  exactly the pairs \<open>(i, j)\<close> with \<open>0 \<le> i < j < 16\<close> whose exclusive or has Hamming weight
  1; there are exactly 32 of them, none twice, and each of the 16 vertex indices is
  incident to exactly 4 edges. This holds for the edge lists of \<^verbatim>\<open>create_4d_cube\<close>
  and for the tuples of \<^verbatim>\<open>create_4d_cube_edges\<close>.
\<close>

theorem create_4d_cube_edges_hamming:
  "set (edges (create_4d_cube sz)) =
     {[i, j] | i j. 0 \<le> i \<and> i < j \<and> j < 16 \<and> hamming_weight (i XOR j) = 1} \<and>
   length (edges (create_4d_cube sz)) = 32 \<and>
   distinct (edges (create_4d_cube sz)) \<and>
   (\<forall>v. 0 \<le> v \<and> v < 16 \<longrightarrow>
      length (filter (\<lambda>e. v \<in> set e) (edges (create_4d_cube sz))) = 4) \<and>
   set create_4d_cube_edges =
     {(i, j) | i j. 0 \<le> i \<and> i < j \<and> j < 16 \<and> hamming_weight (i XOR j) = 1} \<and>
   length create_4d_cube_edges = 32 \<and>
   distinct create_4d_cube_edges \<and>
   (\<forall>v. 0 \<le> v \<and> v < 16 \<longrightarrow>
      length (filter (\<lambda>(a, b). v = a \<or> v = b) create_4d_cube_edges) = 4)"
proof -
  have "distinct (edges (create_4d_cube sz))"
    unfolding edges_eq_cube_edges cube_edges_list by simp
  moreover have "length (edges (create_4d_cube sz)) = 32"
    by (simp add: edges_eq_cube_edges cube_edges_length)
  moreover have "set create_4d_cube_edges =
     {(i, j) | i j. 0 \<le> i \<and> i < j \<and> j < 16 \<and> hamming_weight (i XOR j) = 1}"
    using cube_edges_mem by auto
  moreover have "\<forall>v. 0 \<le> v \<and> v < 16 \<longrightarrow>
      length (filter (\<lambda>e. v \<in> set e) (edges (create_4d_cube sz))) = 4"
    using edges_degree by blast
  moreover have "\<forall>v. 0 \<le> v \<and> v < 16 \<longrightarrow>
      length (filter (\<lambda>(a, b). v = a \<or> v = b) create_4d_cube_edges) = 4"
    using cube_edges_degree by blast
  moreover note edges_set [of sz] cube_edges_length cube_edges_distinct
  ultimately show ?thesis
    by (intro conjI)
qed

theorem create_4d_cube_edges_hamming_witness:
  "[2, 6] \<in> set (edges (create_4d_cube 1)) \<and>
   length (filter (\<lambda>e. 3 \<in> set e) (edges (create_4d_cube 1))) = 4 \<and>
   length (filter (\<lambda>(a, b). 9 = a \<or> 9 = b) create_4d_cube_edges) = 4"
proof -
  note t = create_4d_cube_edges_hamming [of 1]
  have "hamming_weight (2 XOR 6) = 1"
    using count_bin [of "2 XOR 6"] by (simp add: bin_def bin_digits.simps)
  then have "[2, 6] \<in> {[i, j] | i j. 0 \<le> i \<and> i < j \<and> j < 16 \<and> hamming_weight (i XOR j) = 1}"
    by simp
  then have "[2, 6] \<in> set (edges (create_4d_cube 1))"
    using t [THEN conjunct1] by simp
  moreover have "length (filter (\<lambda>e. 3 \<in> set e) (edges (create_4d_cube 1))) = 4"
    using t [THEN conjunct2, THEN conjunct2, THEN conjunct2, THEN conjunct1, rule_format, of 3]
    by simp
  moreover have "length (filter (\<lambda>(a, b). 9 = a \<or> 9 = b) create_4d_cube_edges) = 4"
    using t [THEN conjunct2, THEN conjunct2, THEN conjunct2, THEN conjunct2,
        THEN conjunct2, THEN conjunct2, THEN conjunct2, rule_format, of 9]
    by simp
  ultimately show ?thesis by (intro conjI)
qed

text \<open>
  Claim C3. For every shape and every transform, \<^verbatim>\<open>apply_transform\<close> returns a shape
  with the vertices and the edges of the input and with the position
  \<open>shape.position + transform.translation\<close>, component by component; changing the six
  rotation angles of the transform to any values does not change the result; a shape at
  the origin translated by \<open>(1, 2, 3, 4)\<close> lies at \<open>(1, 2, 3, 4)\<close>. The source function
  assigns to no field of its arguments and the embedding takes them by value, so the
  input shape is the same after the call.
\<close>

theorem apply_transform_translates_only:
  "vertices (apply_transform shape transform) = vertices shape \<and>
   edges (apply_transform shape transform) = edges shape \<and>
   position (apply_transform shape transform) =
     \<lparr>x = x (position shape) + x (translation transform),
      y = y (position shape) + y (translation transform),
      z = z (position shape) + z (translation transform),
      w = w (position shape) + w (translation transform)\<rparr> \<and>
   apply_transform shape
     (transform\<lparr>rotation_xy := a1, rotation_xz := a2, rotation_xw := a3,
                rotation_yz := a4, rotation_yw := a5, rotation_zw := a6\<rparr>) =
     apply_transform shape transform \<and>
   position (apply_transform (shape\<lparr>position := \<lparr>x = 0, y = 0, z = 0, w = 0\<rparr>\<rparr>)
     (transform\<lparr>translation := \<lparr>x = 1, y = 2, z = 3, w = 4\<rparr>\<rparr>)) =
     \<lparr>x = 1, y = 2, z = 3, w = 4\<rparr>"
  by (simp add: apply_transform_def)

text \<open>
  Claim C4. When the viewer distance equals the \<open>w\<close> coordinate of the point,
  \<^verbatim>\<open>project_4d_to_3d\<close> raises \<^verbatim>\<open>ZeroDivisionError\<close> and returns no value.
\<close>

theorem project_4d_to_3d_zero_divisor: "project_4d_to_3d (px, py, pz, d) d = Inl ZeroDivisionError"
  by (simp add: project_4d_to_3d_def)

text \<open>
  Claim C5. For every point \<open>(x, y, z, w)\<close> and every viewer distance other than \<open>w\<close>,
  \<^verbatim>\<open>project_4d_to_3d\<close> returns \<open>(x * factor, y * factor, z * factor)\<close> with
  \<open>factor = distance / (distance - w)\<close>; the origin at distance 5 is projected to
  \<open>(0, 0, 0)\<close> and \<open>(1, 1, 1, 4)\<close> at distance 5 to \<open>(5, 5, 5)\<close>.
\<close>

theorem project_4d_to_3d_perspective:
  "(distance \<noteq> pw \<longrightarrow>
      project_4d_to_3d (px, py, pz, pw) distance =
        Inr (px * (distance / (distance - pw)),
             py * (distance / (distance - pw)),
             pz * (distance / (distance - pw)))) \<and>
   project_4d_to_3d (0, 0, 0, 0) 5 = Inr (0, 0, 0) \<and>
   project_4d_to_3d (1, 1, 1, 4) 5 = Inr (5, 5, 5)"
  by (simp add: project_4d_to_3d_def Let_def)

theorem project_4d_to_3d_perspective_witness:
  "(6::real) \<noteq> 4 \<and> project_4d_to_3d (1, 2, 3, 4) 6 = Inr (3, 6, 9)"
  using project_4d_to_3d_perspective [of 6 4 1 2 3] by simp

text \<open>
  Claim C6. For every shape, \<^verbatim>\<open>apply_transform\<close> with the identity transform (the six
  rotation angles 0 and the zero translation) returns the shape itself: its vertices,
  edges and position are unchanged.
\<close>

theorem apply_transform_identity:
  "apply_transform shape
     \<lparr>rotation_xy = 0, rotation_xz = 0, rotation_xw = 0,
      rotation_yz = 0, rotation_yw = 0, rotation_zw = 0,
      translation = \<lparr>x = 0, y = 0, z = 0, w = 0\<rparr>\<rparr> = shape"
  by (simp add: apply_transform_def)

text \<open>
  Claim C7. For every angle, each of the three builders returns the rotation matrix of
  the specification for its plane: \<open>xy\<close> at the rows and columns 0 and 1, \<open>xz\<close> at 0 and
  2, \<open>xw\<close> at 0 and 3; the \<open>xy\<close> matrix at angle 0 is the identity matrix.
\<close>

theorem rotation_matrix_4d_plane_blocks:
  "rotation_matrix_4d_xy \<theta> = plane_rotation 0 1 \<theta> \<and>
   rotation_matrix_4d_xz \<theta> = plane_rotation 0 2 \<theta> \<and>
   rotation_matrix_4d_xw \<theta> = plane_rotation 0 3 \<theta> \<and>
   rotation_matrix_4d_xy 0 = identity_matrix_4"
  by (simp add: rotation_matrix_4d_xy_def rotation_matrix_4d_xz_def rotation_matrix_4d_xw_def
      plane_rotation_def identity_matrix_4_def upt_0_4 Let_def)

text \<open>
  Claim C8. For every matrix of 4 rows of length 4 and every vector of length 4,
  \<^verbatim>\<open>matrix_multiply_4d\<close> returns the matrix-vector product: component \<open>i\<close> of the
  result is the sum over \<open>j < 4\<close> of \<open>matrix[i][j] * vector[j]\<close>. The function is pure:
  its result is this value and nothing else.
\<close>

theorem matrix_multiply_4d_product:
  assumes "length matrix = 4" and "\<forall>row\<in>set matrix. length row = 4" and "length vector = 4"
  shows "matrix_multiply_4d matrix vector =
    Inr (map (\<lambda>i. \<Sum>j<4. matrix ! i ! j * vector ! j) [0..<4])"
proof -
  from assms(1) obtain r0 r1 r2 r3 where m: "matrix = [r0, r1, r2, r3]"
    using length_4_list by blast
  from assms(2) m have "length r0 = 4" "length r1 = 4" "length r2 = 4" "length r3 = 4"
    by simp_all
  then obtain a0 a1 a2 a3 b0 b1 b2 b3 c0 c1 c2 c3 d0 d1 d2 d3 where
    r: "r0 = [a0, a1, a2, a3]" "r1 = [b0, b1, b2, b3]"
       "r2 = [c0, c1, c2, c3]" "r3 = [d0, d1, d2, d3]"
    using length_4_list by metis
  from assms(3) obtain v0 v1 v2 v3 where v: "vector = [v0, v1, v2, v3]"
    using length_4_list by blast
  have s: "(\<Sum>j<4. f j) = f 0 + f 1 + f 2 + f (3::nat)" for f :: "nat \<Rightarrow> real"
    by (simp add: numeral_eq_Suc lessThan_Suc)
  show ?thesis
    unfolding m r v matrix_multiply_4d_explicit s
    by (simp add: upt_0_4)
qed

theorem matrix_multiply_4d_product_witness:
  "length [[1, 2, 3, 4], [5, 6, 7, 8], [9, 10, 11, 12], [13, 14, 15, 16 :: real]] = 4 \<and>
   list_all (\<lambda>row. length row = 4)
     [[1, 2, 3, 4], [5, 6, 7, 8], [9, 10, 11, 12], [13, 14, 15, 16 :: real]] \<and>
   length [1, 0, 2, 0 :: real] = 4 \<and>
   matrix_multiply_4d [[1, 2, 3, 4], [5, 6, 7, 8], [9, 10, 11, 12], [13, 14, 15, 16]]
     [1, 0, 2, 0] = Inr [7, 19, 31, 43]"
  using matrix_multiply_4d_product [of "[[1, 2, 3, 4], [5, 6, 7, 8], [9, 10, 11, 12], [13, 14, 15, 16]]" "[1, 0, 2, 0]"]
  by (simp add: upt_0_4 numeral_eq_Suc lessThan_Suc)

text \<open>
  Claim C9. The edges produced by hypercube generation satisfy the validity invariant:
  every edge is a pair with \<open>0 \<le> i < j < \<close> the number of vertices (so no edge
  \<open>(i, i)\<close>), no edge occurs twice and none occurs reversed. \<^verbatim>\<open>apply_transform\<close>
  returns the edge list unchanged and so preserves the invariant.
\<close>

theorem edges_valid_and_preserved:
  "valid_edges (create_4d_cube sz) \<and>
   valid_edge_pairs (length (create_4d_cube_vertices sz)) create_4d_cube_edges \<and>
   edges (apply_transform shape transform) = edges shape \<and>
   (valid_edges shape \<longrightarrow> valid_edges (apply_transform shape transform))"
proof -
  have "length (create_4d_cube_vertices sz) = 16"
    by (simp add: cube_vertices_map length_range_py)
  then have "valid_edge_pairs (length (create_4d_cube_vertices sz)) create_4d_cube_edges"
    by (simp only: cube_valid_pairs)
  moreover have "edges (apply_transform shape transform) = edges shape"
    by (simp add: apply_transform_def)
  moreover note cube_valid [of sz]
  moreover have "valid_edges shape \<longrightarrow> valid_edges (apply_transform shape transform)"
    using apply_transform_valid by blast
  ultimately show ?thesis by (intro conjI)
qed

theorem edges_valid_and_preserved_witness:
  "valid_edges (create_4d_cube 1) \<and>
   valid_edges (apply_transform (create_4d_cube 1)
     \<lparr>rotation_xy = 1, rotation_xz = 0, rotation_xw = 0,
      rotation_yz = 0, rotation_yw = 0, rotation_zw = 0,
      translation = \<lparr>x = 1, y = 2, z = 3, w = 4\<rparr>\<rparr>)"
  using edges_valid_and_preserved [of 1 "create_4d_cube 1"] by blast

text \<open>
  Claim C10. For every size, \<^verbatim>\<open>create_4d_cube\<close> of the backend and the pair
  \<^verbatim>\<open>create_4d_cube_vertices\<close>, \<^verbatim>\<open>create_4d_cube_edges\<close> of the shared module compute
  the same geometry: the components of the vertices agree index by index, and the edges
  agree element by element in the same order.
\<close>

theorem create_4d_cube_agrees_with_shared:
  "map (\<lambda>v. (x v, y v, z v, w v)) (vertices (create_4d_cube sz)) = create_4d_cube_vertices sz \<and>
   edges (create_4d_cube sz) = map (\<lambda>(i, j). [i, j]) create_4d_cube_edges"
  by (simp add: vertices_map cube_vertices_map edges_eq_cube_edges comp_def)

end
